theory Spec2Isabelle
  imports Main
begin

section \<open>The editor component of \<open>src/components/editor.js\<close>\<close>

text \<open>
  The component keeps an ordered list of plugins, a schema composed from them, the
  snapshot (\<open>State\<close>) it was last given, and a small cache of the document and
  selection it last reported. Everything it compares, it compares with JavaScript's
  \<open>==\<close> and \<open>!=\<close> on objects, that is by reference. The embedding makes the
  reference explicit: every object carries an identity, and \<open>==\<close> looks at nothing else.
\<close>

subsection \<open>Objects and reference identity\<close>

record object =
  ident :: nat

text \<open>\<open>a == b\<close> for two objects.\<close>

definition same :: "'a object_scheme \<Rightarrow> 'b object_scheme \<Rightarrow> bool" where
  "same a b = (ident a = ident b)"

text \<open>
  \<open>a == b\<close> where either side may be \<open>undefined\<close> or \<open>null\<close> (\<open>None\<close>):
  two missing values are equal, a missing value never equals an object.
\<close>

fun js_eq :: "'a object_scheme option \<Rightarrow> 'b object_scheme option \<Rightarrow> bool" where
  "js_eq None None = True"
| "js_eq (Some a) (Some b) = same a b"
| "js_eq _ _ = False"

subsection \<open>Snapshots\<close>

text \<open>
  The models \<open>Document\<close>, \<open>Selection\<close> and \<open>State\<close> live outside this file. The
  editor reads two fields of a \<open>State\<close>, \<open>document\<close> and \<open>selection\<close>, and never looks
  inside either. Their contents are kept (\<open>nodes\<close>, \<open>isFocused\<close>) so that two distinct
  instances with equal contents can be told apart from one instance.
\<close>

record Document = object +
  nodes :: string

record Selection = object +
  isFocused :: bool

record State = object +
  document :: Document
  selection :: Selection

record 'a array = object +
  items :: "'a list"

subsection \<open>Schemas\<close>

text \<open>
  A plugin's \<open>schema\<close> field is a fragment: an object that \<open>Schema.create\<close> expands to
  a \<open>Schema\<close> with a \<open>rules\<close> array. \<open>models/schema.js\<close> is not part of the sources,
  so \<open>Schema.create\<close> on a fragment is a parameter \<open>create\<close> of everything below.
\<close>

record 'f fragment = object +
  body :: 'f

record 'r Schema =
  rules :: "'r list"

text \<open>
  Modelled from the spec: \<open>Schema.create({ rules })\<close>, the call at the end of
  \<open>resolveSchema\<close>, whose code (\<open>models/schema.js\<close>) is missing. The spec says the
  final schema is built "from the full accumulated rule sequence": it holds exactly
  the rules it is given.
\<close>

definition Schema_create_rules :: "'r list \<Rightarrow> 'r Schema" where
  "Schema_create_rules rs = \<lparr>rules = rs\<rparr>"

subsection \<open>Plugins\<close>

text \<open>\<open>EVENT_HANDLERS\<close> (lines 24-33).\<close>

datatype event_name =
  onBeforeInput | onBlur | onCopy | onCut | onDrop | onKeyDown | onPaste | onSelect

definition EVENT_HANDLERS :: "event_name list" where
  "EVENT_HANDLERS =
     [onBeforeInput, onBlur, onCopy, onCut, onDrop, onKeyDown, onPaste, onSelect]"

datatype exn = Error string

text \<open>
  What a call of a plugin function comes to: it returns \<open>undefined\<close> or \<open>null\<close>
  (\<open>Nothing\<close>), it returns a \<open>State\<close>, or it throws. A \<open>State\<close> is an object and so
  truthy: the test \<open>!newState\<close> of \<open>onEvent\<close> and the test \<open>newState == null\<close> of the
  two change chains single out the same case, \<open>Nothing\<close>.
\<close>

datatype result = Nothing | Returns State | Throws exn

text \<open>
  Plugin functions receive the editor itself as their last argument. The model hands
  them what the editor's accessors \<open>getState\<close> and \<open>getSchema\<close> would return at the
  moment of the call; a plugin function that calls back into the editor is outside
  this model.
\<close>

record 'r handle =
  handle_state :: "State option"
  handle_schema :: "'r Schema"

type_synonym args = "string list"

type_synonym 'r hook = "State \<Rightarrow> 'r handle \<Rightarrow> result"

type_synonym 'r handler = "args \<Rightarrow> State option \<Rightarrow> 'r handle \<Rightarrow> result"

datatype callback = Callback nat

text \<open>
  A plugin is a plain object. The editor reads \<open>schema\<close>, \<open>onBeforeChange\<close>,
  \<open>onChange\<close> and one field per event name from it; a missing field is \<open>None\<close>.
  The remaining fields are the ones the editor's own properties carry into the first
  plugin of the list (see \<open>editorPlugin\<close>); the editor never reads them from a plugin.
\<close>

record ('f, 'r) plugin =
  plugin_schema :: "'f fragment option"
  plugin_onBeforeChange :: "'r hook option"
  plugin_onChange :: "'r hook option"
  plugin_handler :: "event_name \<Rightarrow> 'r handler option"
  plugin_className :: "string option"
  plugin_onDocumentChange :: "callback option"
  plugin_onSelectionChange :: "callback option"
  plugin_placeholder :: "string option"
  plugin_placeholderClassName :: "string option"
  plugin_placeholderStyle :: "string option"
  plugin_readOnly :: "bool option"
  plugin_spellCheck :: "bool option"
  plugin_state :: "State option"
  plugin_style :: "string option"

subsection \<open>Properties\<close>

text \<open>
  \<open>propTypes\<close> (lines 49-64 and 336-338), after React has filled in \<open>defaultProps\<close>:
  the three callbacks, \<open>plugins\<close>, \<open>readOnly\<close> and \<open>spellCheck\<close> are always there,
  and \<open>state\<close> is required.
\<close>

record ('f, 'r) Props =
  props_className :: "string option"
  props_onBeforeChange :: "'r hook option"
  props_onChange :: callback
  props_onDocumentChange :: callback
  props_onSelectionChange :: callback
  props_placeholder :: "string option"
  props_placeholderClassName :: "string option"
  props_placeholderStyle :: "string option"
  props_plugins :: "('f, 'r) plugin array"
  props_readOnly :: bool
  props_schema :: "'f fragment option"
  props_spellCheck :: bool
  props_state :: State
  props_style :: "string option"
  props_handler :: "event_name \<Rightarrow> 'r handler option"

subsection \<open>The calls the editor makes\<close>

text \<open>
  Plugin functions and the host's callbacks are not the editor's code. Each call the
  editor makes to one of them is recorded, in order, with its arguments: the position
  of the plugin in the list for a plugin function (and what the call came to), the
  function called for a callback.
\<close>

datatype call =
    Hook_onBeforeChange nat State result
  | Hook_onChange nat State result
  | Handler event_name nat args "State option" result
  | Props_onChange callback State
  | Props_onDocumentChange callback Document State
  | Props_onSelectionChange callback Selection State

fun is_hook_call :: "call \<Rightarrow> bool" where
  "is_hook_call (Hook_onBeforeChange _ _ _) = True"
| "is_hook_call (Hook_onChange _ _ _) = True"
| "is_hook_call _ = False"

fun is_handler_call :: "call \<Rightarrow> bool" where
  "is_handler_call (Handler _ _ _ _ _) = True"
| "is_handler_call _ = False"

fun is_callback :: "call \<Rightarrow> bool" where
  "is_callback (Props_onChange _ _) = True"
| "is_callback (Props_onDocumentChange _ _ _) = True"
| "is_callback (Props_onSelectionChange _ _ _) = True"
| "is_callback _ = False"

subsection \<open>The component\<close>

text \<open>
  \<open>this.props\<close>, \<open>this.state\<close> (\<open>plugins\<close>, \<open>schema\<close>, \<open>state\<close>), \<open>this.tmp\<close>
  (\<open>document\<close>, \<open>selection\<close>) and the calls made so far, oldest first.
  \<open>this.state.state\<close> and the two fields of \<open>this.tmp\<close> are \<open>undefined\<close> while the
  constructor runs, hence the options.
\<close>

record ('f, 'r) Editor =
  props :: "('f, 'r) Props"
  st_plugins :: "('f, 'r) plugin list"
  st_schema :: "'r Schema"
  st_state :: "State option"
  tmp_document :: "Document option"
  tmp_selection :: "Selection option"
  trace :: "call list"

definition called :: "call \<Rightarrow> ('f, 'r) Editor \<Rightarrow> ('f, 'r) Editor" where
  "called c ed = ed\<lparr>trace := trace ed @ [c]\<rparr>"

definition handle :: "('f, 'r) Editor \<Rightarrow> 'r handle" where
  "handle ed = \<lparr>handle_state = st_state ed, handle_schema = st_schema ed\<rparr>"

text \<open>\<open>getSchema\<close> (line 174) and \<open>getState\<close> (line 184).\<close>

definition getSchema :: "('f, 'r) Editor \<Rightarrow> 'r Schema" where
  "getSchema ed = st_schema ed"

definition getState :: "('f, 'r) Editor \<Rightarrow> State option" where
  "getState ed = st_state ed"

text \<open>\<open>cacheState\<close> (lines 137-140).\<close>

definition cacheState :: "State \<Rightarrow> ('f, 'r) Editor \<Rightarrow> ('f, 'r) Editor" where
  "cacheState state ed =
     ed\<lparr>tmp_document := Some (document state), tmp_selection := Some (selection state)\<rparr>"

subsection \<open>\<open>resolvePlugins\<close> (lines 299-308)\<close>

text \<open>
  The rest object of \<open>const { onChange, plugins, ...editorPlugin } = props\<close>: every
  field of \<open>props\<close> but these two. It has no \<open>onChange\<close> field.
\<close>

definition editorPlugin :: "('f, 'r) Props \<Rightarrow> ('f, 'r) plugin" where
  "editorPlugin p =
     \<lparr>plugin_schema = props_schema p,
      plugin_onBeforeChange = props_onBeforeChange p,
      plugin_onChange = None,
      plugin_handler = props_handler p,
      plugin_className = props_className p,
      plugin_onDocumentChange = Some (props_onDocumentChange p),
      plugin_onSelectionChange = Some (props_onSelectionChange p),
      plugin_placeholder = props_placeholder p,
      plugin_placeholderClassName = props_placeholderClassName p,
      plugin_placeholderStyle = props_placeholderStyle p,
      plugin_readOnly = Some (props_readOnly p),
      plugin_spellCheck = Some (props_spellCheck p),
      plugin_state = Some (props_state p),
      plugin_style = props_style p\<rparr>"

text \<open>
  \<open>CorePlugin\<close> (\<open>plugins/core\<close>) is not part of the sources: it is the parameter
  \<open>CorePlugin\<close>, a function from the properties to a plugin.
\<close>

definition resolvePlugins ::
  "(('f, 'r) Props \<Rightarrow> ('f, 'r) plugin) \<Rightarrow> ('f, 'r) Props \<Rightarrow> ('f, 'r) plugin list" where
  "resolvePlugins CorePlugin p =
     (let corePlugin = CorePlugin p
      in [editorPlugin p] @ items (props_plugins p) @ [corePlugin])"

subsection \<open>\<open>resolveSchema\<close> (lines 317-328)\<close>

text \<open>The loop of lines 320-324, with \<open>rules\<close> as its accumulator.\<close>

fun resolveSchema_loop ::
  "('f fragment \<Rightarrow> 'r Schema) \<Rightarrow> ('f, 'r) plugin list \<Rightarrow> 'r list \<Rightarrow> 'r list" where
  "resolveSchema_loop create [] rs = rs"
| "resolveSchema_loop create (plugin # rest) rs =
     (case plugin_schema plugin of
        None \<Rightarrow> resolveSchema_loop create rest rs
      | Some frag \<Rightarrow> resolveSchema_loop create rest (rs @ rules (create frag)))"

definition resolveSchema ::
  "('f fragment \<Rightarrow> 'r Schema) \<Rightarrow> ('f, 'r) plugin list \<Rightarrow> 'r Schema" where
  "resolveSchema create plugins = Schema_create_rules (resolveSchema_loop create plugins [])"

subsection \<open>\<open>onBeforeChange\<close> (lines 195-206)\<close>

text \<open>
  The loop of lines 198-203 from the plugin at position \<open>i\<close> on, with the running
  \<open>state\<close>. A hook that throws ends the loop and the method: \<open>Inl\<close>.
\<close>

fun onBeforeChange_loop ::
  "nat \<Rightarrow> ('f, 'r) plugin list \<Rightarrow> State \<Rightarrow> ('f, 'r) Editor \<Rightarrow> (exn + State) \<times> ('f, 'r) Editor" where
  "onBeforeChange_loop i [] state ed = (Inr state, ed)"
| "onBeforeChange_loop i (plugin # rest) state ed =
     (case plugin_onBeforeChange plugin of
        None \<Rightarrow> onBeforeChange_loop (Suc i) rest state ed
      | Some hook \<Rightarrow>
          (let r = hook state (handle ed);
               ed' = called (Hook_onBeforeChange i state r) ed
           in case r of
                Throws e \<Rightarrow> (Inl e, ed')
              | Nothing \<Rightarrow> onBeforeChange_loop (Suc i) rest state ed'
              | Returns newState \<Rightarrow> onBeforeChange_loop (Suc i) rest newState ed'))"

definition onBeforeChange ::
  "State \<Rightarrow> ('f, 'r) Editor \<Rightarrow> (exn + State) \<times> ('f, 'r) Editor" where
  "onBeforeChange state ed =
     (if js_eq (Some state) (st_state ed) then (Inr state, ed)
      else onBeforeChange_loop 0 (st_plugins ed) state ed)"

subsection \<open>\<open>onChange\<close> (lines 214-235)\<close>

fun onChange_loop ::
  "nat \<Rightarrow> ('f, 'r) plugin list \<Rightarrow> State \<Rightarrow> ('f, 'r) Editor \<Rightarrow> (exn + State) \<times> ('f, 'r) Editor" where
  "onChange_loop i [] state ed = (Inr state, ed)"
| "onChange_loop i (plugin # rest) state ed =
     (case plugin_onChange plugin of
        None \<Rightarrow> onChange_loop (Suc i) rest state ed
      | Some hook \<Rightarrow>
          (let r = hook state (handle ed);
               ed' = called (Hook_onChange i state r) ed
           in case r of
                Throws e \<Rightarrow> (Inl e, ed')
              | Nothing \<Rightarrow> onChange_loop (Suc i) rest state ed'
              | Returns newState \<Rightarrow> onChange_loop (Suc i) rest newState ed'))"

text \<open>Lines 224-234: the three callbacks, then the cache.\<close>

definition notify :: "State \<Rightarrow> ('f, 'r) Editor \<Rightarrow> ('f, 'r) Editor" where
  "notify state ed =
     (let ed1 = called (Props_onChange (props_onChange (props ed)) state) ed;
          ed2 = (if \<not> js_eq (Some (document state)) (tmp_document ed1)
                 then called (Props_onDocumentChange (props_onDocumentChange (props ed1))
                                (document state) state) ed1
                 else ed1);
          ed3 = (if \<not> js_eq (Some (selection state)) (tmp_selection ed2)
                 then called (Props_onSelectionChange (props_onSelectionChange (props ed2))
                                (selection state) state) ed2
                 else ed2)
      in cacheState state ed3)"

definition onChange ::
  "State \<Rightarrow> ('f, 'r) Editor \<Rightarrow> (exn + unit) \<times> ('f, 'r) Editor" where
  "onChange state ed =
     (if js_eq (Some state) (st_state ed) then (Inr (), ed)
      else case onChange_loop 0 (st_plugins ed) state ed of
             (Inl e, ed') \<Rightarrow> (Inl e, ed')
           | (Inr state', ed') \<Rightarrow> (Inr (), notify state' ed'))"

text \<open>
  \<open>blur\<close> and \<open>focus\<close> (lines 146-166) ask the transform facility of the snapshot
  held, which is outside this file, for a new snapshot and pass it to \<open>onChange\<close>.
\<close>

subsection \<open>\<open>onEvent\<close> (lines 245-253)\<close>

fun onEvent_loop ::
  "nat \<Rightarrow> ('f, 'r) plugin list \<Rightarrow> event_name \<Rightarrow> args \<Rightarrow> ('f, 'r) Editor
     \<Rightarrow> (exn + unit) \<times> ('f, 'r) Editor" where
  "onEvent_loop i [] name as ed = (Inr (), ed)"
| "onEvent_loop i (plugin # rest) name as ed =
     (case plugin_handler plugin name of
        None \<Rightarrow> onEvent_loop (Suc i) rest name as ed
      | Some h \<Rightarrow>
          (let r = h as (st_state ed) (handle ed);
               ed' = called (Handler name i as (st_state ed) r) ed
           in case r of
                Throws e \<Rightarrow> (Inl e, ed')
              | Nothing \<Rightarrow> onEvent_loop (Suc i) rest name as ed'
              | Returns newState \<Rightarrow> onChange newState ed'))"

definition onEvent ::
  "event_name \<Rightarrow> args \<Rightarrow> ('f, 'r) Editor \<Rightarrow> (exn + unit) \<times> ('f, 'r) Editor" where
  "onEvent name as ed = onEvent_loop 0 (st_plugins ed) name as ed"

subsection \<open>The constructor (lines 88-105)\<close>

text \<open>
  While the constructor runs, \<open>this.state.state\<close> and \<open>this.tmp\<close> have no value yet:
  \<open>onBeforeChange\<close> compares \<open>props.state\<close> with \<open>undefined\<close> and runs the chain.
  A hook that throws leaves no component: \<open>Inl\<close>.
\<close>

definition constructor ::
  "(('f, 'r) Props \<Rightarrow> ('f, 'r) plugin) \<Rightarrow> ('f fragment \<Rightarrow> 'r Schema) \<Rightarrow> ('f, 'r) Props
     \<Rightarrow> exn + ('f, 'r) Editor" where
  "constructor CorePlugin create p =
     (let plugins = resolvePlugins CorePlugin p;
          schema = resolveSchema create plugins;
          this = \<lparr>props = p, st_plugins = plugins, st_schema = schema, st_state = None,
                  tmp_document = None, tmp_selection = None, trace = []\<rparr>
      in case onBeforeChange (props_state p) this of
           (Inl e, _) \<Rightarrow> Inl e
         | (Inr state, this') \<Rightarrow> Inr ((cacheState state this')\<lparr>st_state := Some state\<rparr>))"

subsection \<open>\<open>componentWillReceiveProps\<close> (lines 113-128)\<close>

text \<open>
  React calls this method with the new properties while \<open>this.props\<close> still holds the
  old ones, and it applies the \<open>setState\<close> calls made inside the method only after the
  method has returned: inside, \<open>this.state\<close> reads the values from before the call.
  So \<open>onBeforeChange\<close> on line 125 runs on the component as it was, and the three
  updates (\<open>plugins\<close>, \<open>schema\<close>, \<open>state\<close>) and the new \<open>this.props\<close> take effect
  together at the end. When \<open>onBeforeChange\<close> throws, lines 126 and 127 are not
  reached: the cache, the snapshot held and \<open>this.props\<close> stay as they were, while
  the \<open>setState\<close> of line 117 or 122, made before the throw, still takes effect.
\<close>

definition componentWillReceiveProps ::
  "(('f, 'r) Props \<Rightarrow> ('f, 'r) plugin) \<Rightarrow> ('f fragment \<Rightarrow> 'r Schema) \<Rightarrow> ('f, 'r) Props
     \<Rightarrow> ('f, 'r) Editor \<Rightarrow> (exn + unit) \<times> ('f, 'r) Editor" where
  "componentWillReceiveProps CorePlugin create p ed =
     (let (plugins', schema') =
            (if \<not> same (props_plugins p) (props_plugins (props ed)) then
               (let plugins = resolvePlugins CorePlugin p;
                    schema = resolveSchema create plugins
                in (plugins, schema))
             else if \<not> js_eq (props_schema p) (props_schema (props ed)) then
               (let schema = resolveSchema create (st_plugins ed)
                in (st_plugins ed, schema))
             else (st_plugins ed, st_schema ed))
      in case onBeforeChange (props_state p) ed of
           (Inl e, ed') \<Rightarrow> (Inl e, ed'\<lparr>st_plugins := plugins', st_schema := schema'\<rparr>)
         | (Inr state, ed') \<Rightarrow>
             (Inr (), (cacheState state ed')
                        \<lparr>props := p, st_plugins := plugins', st_schema := schema',
                         st_state := Some state\<rparr>))"

section \<open>What the specification says, as functions\<close>

text \<open>
  The rules a plugin contributes: its fragment expanded by \<open>Schema.create\<close>, and no
  rule when it has no \<open>schema\<close> field.
\<close>

definition expanded :: "('f fragment \<Rightarrow> 'r Schema) \<Rightarrow> ('f, 'r) plugin \<Rightarrow> 'r list" where
  "expanded create plugin =
     (case plugin_schema plugin of None \<Rightarrow> [] | Some frag \<Rightarrow> rules (create frag))"

text \<open>
  A hook chain as the specification describes it: the plugins in list order, each hook
  given the running snapshot; a returned snapshot replaces it, no result leaves it,
  a failure ends the chain. \<open>field\<close> selects the hook (\<open>plugin_onBeforeChange\<close> or
  \<open>plugin_onChange\<close>).
\<close>

fun chain ::
  "(('f, 'r) plugin \<Rightarrow> 'r hook option) \<Rightarrow> ('f, 'r) plugin list \<Rightarrow> 'r handle \<Rightarrow> State
     \<Rightarrow> exn + State" where
  "chain field [] h s = Inr s"
| "chain field (p # ps) h s =
     (case field p of
        None \<Rightarrow> chain field ps h s
      | Some hook \<Rightarrow>
          (case hook s h of
             Throws e \<Rightarrow> Inl e
           | Nothing \<Rightarrow> chain field ps h s
           | Returns s' \<Rightarrow> chain field ps h s'))"

text \<open>The hook calls of such a chain, \<open>mk\<close> being the kind of call recorded.\<close>

fun chain_calls ::
  "(nat \<Rightarrow> State \<Rightarrow> result \<Rightarrow> call) \<Rightarrow> (('f, 'r) plugin \<Rightarrow> 'r hook option) \<Rightarrow> nat
     \<Rightarrow> ('f, 'r) plugin list \<Rightarrow> 'r handle \<Rightarrow> State \<Rightarrow> call list" where
  "chain_calls mk field i [] h s = []"
| "chain_calls mk field i (p # ps) h s =
     (case field p of
        None \<Rightarrow> chain_calls mk field (Suc i) ps h s
      | Some hook \<Rightarrow>
          mk i s (hook s h) #
          (case hook s h of
             Throws e \<Rightarrow> []
           | Nothing \<Rightarrow> chain_calls mk field (Suc i) ps h s
           | Returns s' \<Rightarrow> chain_calls mk field (Suc i) ps h s'))"

text \<open>
  What plugin \<open>p\<close> answers to the event \<open>name\<close> on the editor \<open>ed\<close>: what its handler
  comes to, and \<open>Nothing\<close> when it has no handler of that name.
\<close>

definition answers ::
  "event_name \<Rightarrow> args \<Rightarrow> ('f, 'r) Editor \<Rightarrow> ('f, 'r) plugin \<Rightarrow> result" where
  "answers name as ed p =
     (case plugin_handler p name of
        None \<Rightarrow> Nothing
      | Some h \<Rightarrow> h as (st_state ed) (handle ed))"

fun returns_snapshot :: "result \<Rightarrow> bool" where
  "returns_snapshot (Returns _) = True"
| "returns_snapshot _ = False"

text \<open>
  The handler calls of one dispatch over the plugins from position \<open>i\<close> on: every
  plugin that has the handler is called, up to and including the first whose handler
  returns a snapshot or throws.
\<close>

fun handler_calls ::
  "nat \<Rightarrow> ('f, 'r) plugin list \<Rightarrow> event_name \<Rightarrow> args \<Rightarrow> ('f, 'r) Editor \<Rightarrow> call list" where
  "handler_calls i [] name as ed = []"
| "handler_calls i (p # ps) name as ed =
     (case plugin_handler p name of
        None \<Rightarrow> handler_calls (Suc i) ps name as ed
      | Some h \<Rightarrow>
          Handler name i as (st_state ed) (h as (st_state ed) (handle ed)) #
          (case h as (st_state ed) (handle ed) of
             Nothing \<Rightarrow> handler_calls (Suc i) ps name as ed
           | _ \<Rightarrow> []))"

fun call_index :: "call \<Rightarrow> nat" where
  "call_index (Hook_onBeforeChange i _ _) = i"
| "call_index (Hook_onChange i _ _) = i"
| "call_index (Handler _ i _ _ _) = i"
| "call_index _ = 0"

fun call_result :: "call \<Rightarrow> result" where
  "call_result (Hook_onBeforeChange _ _ r) = r"
| "call_result (Hook_onChange _ _ r) = r"
| "call_result (Handler _ _ _ _ r) = r"
| "call_result _ = Nothing"

text \<open>The calls an operation added to the record: those of \<open>ed'\<close> after those of \<open>ed\<close>.\<close>

definition new_calls :: "('f, 'r) Editor \<Rightarrow> ('f, 'r) Editor \<Rightarrow> call list" where
  "new_calls ed ed' = drop (length (trace ed)) (trace ed')"

text \<open>
  A dispatch as the specification describes it: the plugins in list order; the first
  answer that is a snapshot (or a failure) ends the walk, no result passes on to the
  next plugin, and the end of the list is no result.
\<close>

fun dispatch :: "event_name \<Rightarrow> args \<Rightarrow> ('f, 'r) Editor \<Rightarrow> ('f, 'r) plugin list \<Rightarrow> result" where
  "dispatch name as ed [] = Nothing"
| "dispatch name as ed (p # ps) =
     (case answers name as ed p of
        Nothing \<Rightarrow> dispatch name as ed ps
      | r \<Rightarrow> r)"

text \<open>
  What the editor does with what a dispatch yields: nothing on no result, \<open>onChange\<close>
  on a snapshot, and a failure goes to the caller.
\<close>

fun finish :: "result \<Rightarrow> ('f, 'r) Editor \<Rightarrow> (exn + unit) \<times> ('f, 'r) Editor" where
  "finish Nothing ed = (Inr (), ed)"
| "finish (Returns s) ed = onChange s ed"
| "finish (Throws e) ed = (Inl e, ed)"

text \<open>The handler calls among the calls an operation added.\<close>

definition handlers_run :: "('f, 'r) Editor \<Rightarrow> ('f, 'r) Editor \<Rightarrow> call list" where
  "handlers_run ed ed' = filter is_handler_call (new_calls ed ed')"

section \<open>Example data\<close>

text \<open>
  Two documents with equal contents and distinct identities, likewise two selections,
  and three snapshots over them.
\<close>

definition doc0 :: Document where "doc0 = \<lparr>ident = 10, nodes = ''one''\<rparr>"

definition doc1 :: Document where "doc1 = \<lparr>ident = 11, nodes = ''one''\<rparr>"

definition sel0 :: Selection where "sel0 = \<lparr>ident = 20, isFocused = True\<rparr>"

definition sel1 :: Selection where "sel1 = \<lparr>ident = 21, isFocused = True\<rparr>"

definition snap0 :: State where
  "snap0 = \<lparr>ident = 1, document = doc0, selection = sel0\<rparr>"

definition snap1 :: State where
  "snap1 = \<lparr>ident = 2, document = doc1, selection = sel0\<rparr>"

definition snap2 :: State where
  "snap2 = \<lparr>ident = 3, document = doc1, selection = sel1\<rparr>"

text \<open>A plugin with no field at all, and plugins that set some.\<close>

definition bare :: "(string list, string) plugin" where
  "bare = \<lparr>plugin_schema = None, plugin_onBeforeChange = None, plugin_onChange = None,
           plugin_handler = (\<lambda>_. None), plugin_className = None,
           plugin_onDocumentChange = None, plugin_onSelectionChange = None,
           plugin_placeholder = None, plugin_placeholderClassName = None,
           plugin_placeholderStyle = None, plugin_readOnly = None, plugin_spellCheck = None,
           plugin_state = None, plugin_style = None\<rparr>"

definition on_key_down :: "result \<Rightarrow> event_name \<Rightarrow> string handler option" where
  "on_key_down r name = (if name = onKeyDown then Some (\<lambda>as cur h. r) else None)"

definition user_plugin :: "(string list, string) plugin" where
  "user_plugin = bare\<lparr>plugin_schema := Some \<lparr>ident = 41, body = [''r1'']\<rparr>,
                      plugin_handler := on_key_down (Returns snap1)\<rparr>"

definition silent_plugin :: "(string list, string) plugin" where
  "silent_plugin = bare\<lparr>plugin_handler := on_key_down Nothing\<rparr>"

definition core_plugin :: "(string list, string) Props \<Rightarrow> (string list, string) plugin" where
  "core_plugin p = bare\<lparr>plugin_schema := Some \<lparr>ident = 42, body = [''r2'']\<rparr>,
                        plugin_handler := on_key_down (Returns snap2)\<rparr>"

text \<open>A \<open>Schema.create\<close> for fragments that list their rules.\<close>

definition listed :: "string list fragment \<Rightarrow> string Schema" where
  "listed frag = \<lparr>rules = body frag\<rparr>"

text \<open>
  Properties with one user plugin and the schema fragment \<open>[a]\<close>, and the component
  the constructor builds from them.
\<close>

definition props0 :: "(string list, string) Props" where
  "props0 =
     \<lparr>props_className = None, props_onBeforeChange = None, props_onChange = Callback 0,
      props_onDocumentChange = Callback 1, props_onSelectionChange = Callback 2,
      props_placeholder = None, props_placeholderClassName = None,
      props_placeholderStyle = None,
      props_plugins = \<lparr>ident = 30, items = [user_plugin]\<rparr>,
      props_readOnly = False, props_schema = Some \<lparr>ident = 40, body = [''a'']\<rparr>,
      props_spellCheck = True, props_state = snap0, props_style = None,
      props_handler = (\<lambda>_. None)\<rparr>"

definition editor0 :: "(string list, string) Editor" where
  "editor0 =
     \<lparr>props = props0, st_plugins = [editorPlugin props0, user_plugin, core_plugin props0],
      st_schema = \<lparr>rules = [''a'', ''r1'', ''r2'']\<rparr>, st_state = Some snap0,
      tmp_document = Some doc0, tmp_selection = Some sel0, trace = []\<rparr>"

definition snap3 :: State where
  "snap3 = \<lparr>ident = 4, document = doc0, selection = sel1\<rparr>"

text \<open>A plugin whose two change hooks throw on any snapshot whose document is \<open>doc1\<close>.\<close>

definition picky_plugin :: "(string list, string) plugin" where
  "picky_plugin =
     bare\<lparr>plugin_onBeforeChange :=
            Some (\<lambda>s _. if same (document s) doc1 then Throws (Error ''boom'') else Nothing),
          plugin_onChange :=
            Some (\<lambda>s _. if same (document s) doc1 then Throws (Error ''boom'') else Nothing)\<rparr>"

text \<open>A plugin whose \<open>onChange\<close> hook replaces any snapshot by \<open>s\<close>.\<close>

definition after_plugin :: "State \<Rightarrow> (string list, string) plugin" where
  "after_plugin s = bare\<lparr>plugin_onChange := Some (\<lambda>_ _. Returns s)\<rparr>"

text \<open>The same properties with other user plugins, and the component over them.\<close>

definition props_with :: "(string list, string) plugin list \<Rightarrow> (string list, string) Props" where
  "props_with ps = props0\<lparr>props_plugins := \<lparr>ident = 31, items = ps\<rparr>\<rparr>"

definition editor_with :: "(string list, string) plugin list \<Rightarrow> (string list, string) Editor" where
  "editor_with ps =
     editor0\<lparr>props := props_with ps,
             st_plugins := [editorPlugin (props_with ps)] @ ps @ [core_plugin (props_with ps)],
             st_schema := \<lparr>rules = [''a''] @ concat (map (expanded listed) ps) @ [''r2'']\<rparr>\<rparr>"

text \<open>
  The component after \<open>onChange snap1\<close> on \<open>editor0\<close>, the host not having passed
  \<open>snap1\<close> back: the cache is ahead of the snapshot held.
\<close>

definition editor1 :: "(string list, string) Editor" where
  "editor1 =
     editor0\<lparr>tmp_document := Some doc1,
             trace := [Props_onChange (Callback 0) snap1,
                       Props_onDocumentChange (Callback 1) doc1 snap1]\<rparr>"

text \<open>The properties \<open>props0\<close> with another schema fragment, \<open>[b]\<close>, and the same plugin list.\<close>

definition props_b :: "(string list, string) Props" where
  "props_b = props0\<lparr>props_schema := Some \<lparr>ident = 43, body = [''b'']\<rparr>\<rparr>"

text \<open>
  The properties \<open>props0\<close> with a key-down handler and an \<open>onBeforeChange\<close> hook of
  their own, a class name and the read-only flag set.
\<close>

definition props_h :: "(string list, string) Props" where
  "props_h = props0\<lparr>props_handler := on_key_down (Returns snap2),
                    props_onBeforeChange := Some (\<lambda>_ _. Returns snap1),
                    props_className := Some ''editor'', props_readOnly := True\<rparr>"

section \<open>What holds of the component\<close>

lemmas example_defs =
  doc0_def doc1_def sel0_def sel1_def snap0_def snap1_def snap2_def bare_def on_key_down_def
  user_plugin_def silent_plugin_def core_plugin_def
  listed_def props0_def editor0_def

lemmas more_example_defs =
  snap3_def picky_plugin_def after_plugin_def props_with_def editor_with_def

subsection \<open>The composed schema\<close>

lemma resolveSchema_loop_concat:
  "resolveSchema_loop create ps rs = rs @ concat (map (expanded create) ps)"
  by (induction ps arbitrary: rs) (simp_all add: expanded_def split: option.splits)

lemma rules_resolveSchema:
  "rules (resolveSchema create ps) = concat (map (expanded create) ps)"
  by (simp add: resolveSchema_def Schema_create_rules_def resolveSchema_loop_concat)

text \<open>
  C5. For every plugin list \<open>L\<close> the rules of the composed schema are the
  concatenation, in the order of \<open>L\<close>, of what each plugin's fragment expands to. A
  plugin without a \<open>schema\<close> field contributes no rule: putting one anywhere in the
  list changes nothing. Nothing is removed, merged or overridden: the rules composed
  from a list followed by another are those of the first followed by those of the
  second, and their number is the sum of the numbers contributed.
\<close>

theorem resolveSchema_concatenates:
  "rules (resolveSchema create L) = concat (map (expanded create) L)
   \<and> expanded create (p\<lparr>plugin_schema := None\<rparr>) = []
   \<and> rules (resolveSchema create (L1 @ p\<lparr>plugin_schema := None\<rparr> # L2))
       = rules (resolveSchema create (L1 @ L2))
   \<and> rules (resolveSchema create (L1 @ L2))
       = rules (resolveSchema create L1) @ rules (resolveSchema create L2)
   \<and> length (rules (resolveSchema create L)) = sum_list (map (length \<circ> expanded create) L)"
  by (simp add: rules_resolveSchema expanded_def length_concat comp_def)

subsection \<open>Committing the snapshot already held\<close>

text \<open>
  C8. When the snapshot given to \<open>onChange\<close> is, by identity, the one the editor
  holds, \<open>onChange\<close> returns at once and the component is as before: no call has been
  added to the record, so no \<open>onChange\<close> hook ran and none of the three callbacks
  was invoked, and the cache is as it was.
\<close>

theorem onChange_same_noop:
  "js_eq (Some s) (st_state ed) \<Longrightarrow> onChange s ed = (Inr (), ed)"
  by (simp add: onChange_def)

theorem onChange_same_noop_witness:
  "js_eq (Some (snap0\<lparr>document := doc1\<rparr>)) (st_state editor0)
   \<and> onChange (snap0\<lparr>document := doc1\<rparr>) editor0 = (Inr (), editor0)"
proof -
  have same: "js_eq (Some (snap0\<lparr>document := doc1\<rparr>)) (st_state editor0)"
    by (simp add: same_def example_defs)
  from same onChange_same_noop [OF same] show ?thesis by simp
qed

subsection \<open>The two hook chains\<close>

lemma handle_trace: "handle (ed\<lparr>trace := t\<rparr>) = handle ed"
  by (simp add: handle_def)

lemma chain_calls_hooks:
  "list_all is_hook_call (chain_calls Hook_onBeforeChange field i ps h s)"
  "list_all is_hook_call (chain_calls Hook_onChange field i ps h s)"
  by (induction ps arbitrary: i s) (simp_all split: option.splits result.splits)

lemma onBeforeChange_loop_chain:
  "onBeforeChange_loop i ps s ed =
     (chain plugin_onBeforeChange ps (handle ed) s,
      ed\<lparr>trace := trace ed @
            chain_calls Hook_onBeforeChange plugin_onBeforeChange i ps (handle ed) s\<rparr>)"
  by (induction ps arbitrary: i s ed)
     (simp_all add: called_def Let_def handle_trace split: option.splits result.splits)

lemma onChange_loop_chain:
  "onChange_loop i ps s ed =
     (chain plugin_onChange ps (handle ed) s,
      ed\<lparr>trace := trace ed @ chain_calls Hook_onChange plugin_onChange i ps (handle ed) s\<rparr>)"
  by (induction ps arbitrary: i s ed)
     (simp_all add: called_def Let_def handle_trace split: option.splits result.splits)

text \<open>
  C2. When a hook of the \<open>onBeforeChange\<close> chain throws while the editor accepts new
  properties (\<open>componentWillReceiveProps\<close>), or a hook of the \<open>onChange\<close> chain throws
  during \<open>onChange\<close>, the call ends with that failure, the snapshot the editor holds
  and the cached document and selection are what they were before the call, and the
  only calls the editor has made are hook calls: none of the three callbacks was
  invoked.
\<close>

theorem hook_failure_changes_nothing:
  "(\<not> js_eq (Some (props_state p)) (st_state ed)
      \<and> chain plugin_onBeforeChange (st_plugins ed) (handle ed) (props_state p) = Inl e
    \<longrightarrow> (\<exists>ed' tr. componentWillReceiveProps CorePlugin create p ed = (Inl e, ed')
           \<and> st_state ed' = st_state ed
           \<and> tmp_document ed' = tmp_document ed \<and> tmp_selection ed' = tmp_selection ed
           \<and> trace ed' = trace ed @ tr \<and> list_all is_hook_call tr))
   \<and> (\<not> js_eq (Some s) (st_state ed)
      \<and> chain plugin_onChange (st_plugins ed) (handle ed) s = Inl e
    \<longrightarrow> (\<exists>ed' tr. onChange s ed = (Inl e, ed')
           \<and> st_state ed' = st_state ed
           \<and> tmp_document ed' = tmp_document ed \<and> tmp_selection ed' = tmp_selection ed
           \<and> trace ed' = trace ed @ tr \<and> list_all is_hook_call tr))"
proof (intro conjI impI)
  assume a: "\<not> js_eq (Some (props_state p)) (st_state ed)
    \<and> chain plugin_onBeforeChange (st_plugins ed) (handle ed) (props_state p) = Inl e"
  let ?tr = "chain_calls Hook_onBeforeChange plugin_onBeforeChange 0 (st_plugins ed)
               (handle ed) (props_state p)"
  from a have before: "onBeforeChange (props_state p) ed = (Inl e, ed\<lparr>trace := trace ed @ ?tr\<rparr>)"
    by (simp add: onBeforeChange_def onBeforeChange_loop_chain)
  let ?r = "componentWillReceiveProps CorePlugin create p ed"
  have "fst ?r = Inl e" "st_state (snd ?r) = st_state ed"
    "tmp_document (snd ?r) = tmp_document ed" "tmp_selection (snd ?r) = tmp_selection ed"
    "trace (snd ?r) = trace ed @ ?tr"
    using before by (simp_all add: componentWillReceiveProps_def Let_def split: prod.splits)
  moreover have "?r = (fst ?r, snd ?r)" by simp
  ultimately have "?r = (Inl e, snd ?r) \<and> st_state (snd ?r) = st_state ed
           \<and> tmp_document (snd ?r) = tmp_document ed \<and> tmp_selection (snd ?r) = tmp_selection ed
           \<and> trace (snd ?r) = trace ed @ ?tr \<and> list_all is_hook_call ?tr"
    by (simp add: chain_calls_hooks)
  then show "\<exists>ed' tr. componentWillReceiveProps CorePlugin create p ed = (Inl e, ed')
           \<and> st_state ed' = st_state ed
           \<and> tmp_document ed' = tmp_document ed \<and> tmp_selection ed' = tmp_selection ed
           \<and> trace ed' = trace ed @ tr \<and> list_all is_hook_call tr"
    by blast
next
  assume a: "\<not> js_eq (Some s) (st_state ed)
    \<and> chain plugin_onChange (st_plugins ed) (handle ed) s = Inl e"
  let ?tr = "chain_calls Hook_onChange plugin_onChange 0 (st_plugins ed) (handle ed) s"
  from a have "onChange s ed = (Inl e, ed\<lparr>trace := trace ed @ ?tr\<rparr>)"
    by (simp add: onChange_def onChange_loop_chain)
  then show "\<exists>ed' tr. onChange s ed = (Inl e, ed')
           \<and> st_state ed' = st_state ed
           \<and> tmp_document ed' = tmp_document ed \<and> tmp_selection ed' = tmp_selection ed
           \<and> trace ed' = trace ed @ tr \<and> list_all is_hook_call tr"
    by (simp add: chain_calls_hooks)
qed

theorem hook_failure_changes_nothing_witness:
  "(\<not> js_eq (Some (props_state ((props_with [picky_plugin])\<lparr>props_state := snap1\<rparr>)))
         (st_state (editor_with [picky_plugin]))
    \<and> chain plugin_onBeforeChange (st_plugins (editor_with [picky_plugin]))
          (handle (editor_with [picky_plugin]))
          (props_state ((props_with [picky_plugin])\<lparr>props_state := snap1\<rparr>))
        = Inl (Error ''boom''))
   \<and> (\<not> js_eq (Some snap1) (st_state (editor_with [picky_plugin]))
    \<and> chain plugin_onChange (st_plugins (editor_with [picky_plugin]))
          (handle (editor_with [picky_plugin])) snap1 = Inl (Error ''boom''))
   \<and> (\<exists>ed' tr. componentWillReceiveProps core_plugin listed
                   ((props_with [picky_plugin])\<lparr>props_state := snap1\<rparr>)
                   (editor_with [picky_plugin]) = (Inl (Error ''boom''), ed')
           \<and> st_state ed' = Some snap0
           \<and> tmp_document ed' = Some doc0 \<and> tmp_selection ed' = Some sel0
           \<and> trace ed' = tr \<and> list_all is_hook_call tr)
   \<and> (\<exists>ed' tr. onChange snap1 (editor_with [picky_plugin]) = (Inl (Error ''boom''), ed')
           \<and> st_state ed' = Some snap0
           \<and> tmp_document ed' = Some doc0 \<and> tmp_selection ed' = Some sel0
           \<and> trace ed' = tr \<and> list_all is_hook_call tr)"
proof -
  let ?p = "(props_with [picky_plugin])\<lparr>props_state := snap1\<rparr>"
  let ?ed = "editor_with [picky_plugin]"
  have before: "\<not> js_eq (Some (props_state ?p)) (st_state ?ed)
    \<and> chain plugin_onBeforeChange (st_plugins ?ed) (handle ?ed) (props_state ?p)
        = Inl (Error ''boom'')"
    by (simp add: same_def editorPlugin_def example_defs more_example_defs)
  have after: "\<not> js_eq (Some snap1) (st_state ?ed)
    \<and> chain plugin_onChange (st_plugins ?ed) (handle ?ed) snap1 = Inl (Error ''boom'')"
    by (simp add: same_def editorPlugin_def example_defs more_example_defs)
  have fields: "st_state ?ed = Some snap0" "tmp_document ?ed = Some doc0"
    "tmp_selection ?ed = Some sel0" "trace ?ed = []"
    by (simp_all add: editor_with_def editor0_def)
  from hook_failure_changes_nothing
         [of ?p ?ed "Error ''boom''" core_plugin listed snap1] before after
  show ?thesis unfolding fields by simp
qed

subsection \<open>The example components\<close>

lemma constructor_props0: "constructor core_plugin listed props0 = Inr editor0"
  by (simp add: constructor_def resolvePlugins_def resolveSchema_def Schema_create_rules_def
      onBeforeChange_def cacheState_def editorPlugin_def example_defs)

lemma constructor_after:
  "constructor core_plugin listed (props_with [after_plugin snap3])
     = Inr (editor_with [after_plugin snap3])"
  by (simp add: constructor_def resolvePlugins_def resolveSchema_def Schema_create_rules_def
      onBeforeChange_def cacheState_def editorPlugin_def example_defs more_example_defs
      expanded_def)

lemma onChange_snap1: "onChange snap1 editor0 = (Inr (), editor1)"
  by (simp add: onChange_def notify_def called_def cacheState_def handle_def
        same_def Let_def editorPlugin_def example_defs editor1_def)

subsection \<open>What a commit reports\<close>

lemma callbacks_notify:
  "filter is_callback (new_calls ed (notify s (ed\<lparr>trace := trace ed @ tr\<rparr>)))
     = filter is_callback tr
       @ [Props_onChange (props_onChange (props ed)) s]
       @ (if \<not> js_eq (Some (document s)) (tmp_document ed)
          then [Props_onDocumentChange (props_onDocumentChange (props ed)) (document s) s]
          else [])
       @ (if \<not> js_eq (Some (selection s)) (tmp_selection ed)
          then [Props_onSelectionChange (props_onSelectionChange (props ed)) (selection s) s]
          else [])"
  by (simp add: notify_def new_calls_def called_def cacheState_def Let_def)

lemma no_callback_in_hooks: "list_all is_hook_call tr \<Longrightarrow> filter is_callback tr = []"
  by (induction tr) (auto elim: is_hook_call.elims)

text \<open>
  C3, in the form that holds. Let \<open>onChange\<close> be given a snapshot \<open>c\<close> that is not, by identity,
  the one the editor holds, and let the \<open>onChange\<close> hook chain end without failure on
  the snapshot \<open>s2\<close> (which is \<open>c\<close> unless a hook replaced it). Then the callbacks
  invoked are, in this order: \<open>onChange\<close> with \<open>s2\<close>; \<open>onDocumentChange\<close> with
  \<open>(s2.document, s2)\<close> exactly when \<open>s2.document\<close> is not the cached document;
  \<open>onSelectionChange\<close> with \<open>(s2.selection, s2)\<close> exactly when \<open>s2.selection\<close> is
  not the cached selection. Both comparisons are by identity alone, whatever the
  contents; afterwards the cache holds \<open>s2.document\<close> and \<open>s2.selection\<close>.
\<close>

theorem onChange_notifies_by_identity:
  assumes "\<not> js_eq (Some c) (st_state ed)"
    and "chain plugin_onChange (st_plugins ed) (handle ed) c = Inr s2"
  shows "\<exists>ed'. onChange c ed = (Inr (), ed')
     \<and> filter is_callback (new_calls ed ed')
         = [Props_onChange (props_onChange (props ed)) s2]
           @ (if \<not> js_eq (Some (document s2)) (tmp_document ed)
              then [Props_onDocumentChange (props_onDocumentChange (props ed)) (document s2) s2]
              else [])
           @ (if \<not> js_eq (Some (selection s2)) (tmp_selection ed)
              then [Props_onSelectionChange (props_onSelectionChange (props ed))
                      (selection s2) s2]
              else [])
     \<and> (\<forall>d. tmp_document ed = Some d \<longrightarrow>
           js_eq (Some (document s2)) (tmp_document ed) = (ident (document s2) = ident d))
     \<and> (\<forall>sl. tmp_selection ed = Some sl \<longrightarrow>
           js_eq (Some (selection s2)) (tmp_selection ed) = (ident (selection s2) = ident sl))
     \<and> tmp_document ed' = Some (document s2) \<and> tmp_selection ed' = Some (selection s2)"
proof -
  let ?tr = "chain_calls Hook_onChange plugin_onChange 0 (st_plugins ed) (handle ed) c"
  let ?ed' = "notify s2 (ed\<lparr>trace := trace ed @ ?tr\<rparr>)"
  from assms have run: "onChange c ed = (Inr (), ?ed')"
    by (simp add: onChange_def onChange_loop_chain)
  have "filter is_callback ?tr = []"
    by (rule no_callback_in_hooks) (rule chain_calls_hooks)
  then have calls: "filter is_callback (new_calls ed ?ed')
         = [Props_onChange (props_onChange (props ed)) s2]
           @ (if \<not> js_eq (Some (document s2)) (tmp_document ed)
              then [Props_onDocumentChange (props_onDocumentChange (props ed)) (document s2) s2]
              else [])
           @ (if \<not> js_eq (Some (selection s2)) (tmp_selection ed)
              then [Props_onSelectionChange (props_onSelectionChange (props ed))
                      (selection s2) s2]
              else [])"
    by (simp only: callbacks_notify append_Nil)
  have cache: "tmp_document ?ed' = Some (document s2)" "tmp_selection ?ed' = Some (selection s2)"
    by (simp_all add: notify_def cacheState_def Let_def)
  have ids: "\<forall>d. tmp_document ed = Some d \<longrightarrow>
           js_eq (Some (document s2)) (tmp_document ed) = (ident (document s2) = ident d)"
    "\<forall>sl. tmp_selection ed = Some sl \<longrightarrow>
           js_eq (Some (selection s2)) (tmp_selection ed) = (ident (selection s2) = ident sl)"
    by (simp_all add: same_def)
  from run calls cache ids show ?thesis by blast
qed

text \<open>
  On \<open>editor0\<close>: \<open>snap1\<close> carries \<open>doc1\<close>, a new instance with the contents of the
  cached \<open>doc0\<close>, and the cached selection; the document callback is invoked, the
  selection callback is not.
\<close>

theorem onChange_notifies_by_identity_witness:
  "\<not> js_eq (Some snap1) (st_state editor0)
   \<and> chain plugin_onChange (st_plugins editor0) (handle editor0) snap1 = Inr snap1
   \<and> nodes (document snap1) = nodes doc0
   \<and> (\<exists>ed'. onChange snap1 editor0 = (Inr (), ed')
        \<and> filter is_callback (new_calls editor0 ed')
            = [Props_onChange (Callback 0) snap1, Props_onDocumentChange (Callback 1) doc1 snap1]
        \<and> tmp_document ed' = Some doc1 \<and> tmp_selection ed' = Some sel0)"
proof -
  have not_held: "\<not> js_eq (Some snap1) (st_state editor0)"
    by (simp add: same_def example_defs)
  have completes: "chain plugin_onChange (st_plugins editor0) (handle editor0) snap1 = Inr snap1"
    by (simp add: editorPlugin_def example_defs)
  have fields: "tmp_document editor0 = Some doc0" "tmp_selection editor0 = Some sel0"
    "props_onChange (props editor0) = Callback 0"
    "props_onDocumentChange (props editor0) = Callback 1"
    "props_onSelectionChange (props editor0) = Callback 2"
    "document snap1 = doc1" "selection snap1 = sel0"
    "\<not> same doc1 doc0" "same sel0 sel0" "nodes doc1 = nodes doc0"
    by (simp_all add: same_def example_defs)
  from onChange_notifies_by_identity [OF not_held completes] not_held completes
  show ?thesis by (simp add: fields) blast
qed

text \<open>
  C3 as stated fails, in two ways. A plugin's \<open>onChange\<close> hook may replace the
  snapshot: the component built from \<open>props_with [after_plugin snap3]\<close> is given
  \<open>snap1\<close>, whose document is not the cached one, and the document callback is not
  invoked at all, because the hook put \<open>snap3\<close> in its place. And the snapshot may be
  the one the editor holds while the cache is ahead of it: after \<open>onChange snap1\<close> on
  \<open>editor0\<close> the editor still holds \<open>snap0\<close> and the cache holds \<open>doc1\<close>; \<open>onChange
  snap0\<close> then returns at once, with no callback.
\<close>

theorem onChange_notifies_candidate_counterexample:
  "constructor core_plugin listed (props_with [after_plugin snap3])
     = Inr (editor_with [after_plugin snap3])
   \<and> tmp_document (editor_with [after_plugin snap3]) = Some doc0
   \<and> \<not> same (document snap1) doc0
   \<and> new_calls (editor_with [after_plugin snap3])
        (snd (onChange snap1 (editor_with [after_plugin snap3])))
       = [Hook_onChange 1 snap1 (Returns snap3), Props_onChange (Callback 0) snap3,
          Props_onSelectionChange (Callback 2) sel1 snap3]
   \<and> Props_onDocumentChange (Callback 1) (document snap1) snap1
       \<notin> set (new_calls (editor_with [after_plugin snap3])
                 (snd (onChange snap1 (editor_with [after_plugin snap3]))))
   \<and> constructor core_plugin listed props0 = Inr editor0
   \<and> onChange snap1 editor0 = (Inr (), editor1)
   \<and> st_state editor1 = Some snap0
   \<and> tmp_document editor1 = Some doc1
   \<and> \<not> same (document snap0) doc1
   \<and> onChange snap0 editor1 = (Inr (), editor1)
   \<and> Props_onDocumentChange (Callback 1) (document snap0) snap0
       \<notin> set (new_calls editor1 (snd (onChange snap0 editor1)))"
proof -
  have replaced: "new_calls (editor_with [after_plugin snap3])
        (snd (onChange snap1 (editor_with [after_plugin snap3])))
       = [Hook_onChange 1 snap1 (Returns snap3), Props_onChange (Callback 0) snap3,
          Props_onSelectionChange (Callback 2) sel1 snap3]"
    by (simp add: onChange_def notify_def new_calls_def called_def cacheState_def handle_def
        same_def Let_def editorPlugin_def example_defs more_example_defs)
  have held: "st_state editor1 = Some snap0" "tmp_document editor1 = Some doc1"
    by (simp_all add: editor1_def editor0_def)
  have returns: "onChange snap0 editor1 = (Inr (), editor1)"
    by (simp add: onChange_def held same_def)
  have rest: "tmp_document (editor_with [after_plugin snap3]) = Some doc0"
    "\<not> same (document snap1) doc0" "\<not> same (document snap0) doc1"
    by (simp_all add: same_def example_defs more_example_defs)
  from constructor_after constructor_props0 onChange_snap1 replaced held returns rest
  show ?thesis by (simp add: new_calls_def)
qed

subsection \<open>Accepting the snapshot already held\<close>

text \<open>
  C7, in the form that holds. When the new properties carry the snapshot the editor holds (by
  identity), \<open>onBeforeChange\<close> returns it at once and calls no hook, and
  \<open>componentWillReceiveProps\<close> ends with that snapshot held, no call made, and the
  cache set to the document and the selection of that snapshot.
\<close>

theorem accept_held_snapshot:
  assumes "js_eq (Some (props_state p)) (st_state ed)"
  shows "onBeforeChange (props_state p) ed = (Inr (props_state p), ed)
    \<and> (\<exists>ed'. componentWillReceiveProps CorePlugin create p ed = (Inr (), ed')
          \<and> st_state ed' = Some (props_state p) \<and> trace ed' = trace ed
          \<and> tmp_document ed' = Some (document (props_state p))
          \<and> tmp_selection ed' = Some (selection (props_state p)))"
  using assms
  by (simp add: onBeforeChange_def componentWillReceiveProps_def cacheState_def Let_def
      split: prod.splits)

theorem accept_held_snapshot_witness:
  "js_eq (Some (props_state props0)) (st_state editor0)
   \<and> onBeforeChange (props_state props0) editor0 = (Inr snap0, editor0)
   \<and> (\<exists>ed'. componentWillReceiveProps core_plugin listed props0 editor0 = (Inr (), ed')
          \<and> st_state ed' = Some snap0 \<and> trace ed' = []
          \<and> tmp_document ed' = tmp_document editor0
          \<and> tmp_selection ed' = tmp_selection editor0)"
proof -
  have held: "js_eq (Some (props_state props0)) (st_state editor0)"
    by (simp add: same_def example_defs)
  have fields: "props_state props0 = snap0" "trace editor0 = []"
    "tmp_document editor0 = Some (document snap0)"
    "tmp_selection editor0 = Some (selection snap0)"
    by (simp_all add: example_defs)
  from accept_held_snapshot [OF held, of core_plugin listed] held
  show ?thesis by (simp add: fields)
qed

text \<open>
  C7 as stated fails: the cache is written on this path too. After \<open>onChange snap1\<close>
  on \<open>editor0\<close> the cache holds \<open>doc1\<close> while the editor holds \<open>snap0\<close>; the host
  renders again with \<open>props0\<close>, whose snapshot is \<open>snap0\<close>, and the cached document
  goes back to \<open>doc0\<close>.
\<close>

theorem accept_held_snapshot_counterexample:
  "constructor core_plugin listed props0 = Inr editor0
   \<and> onChange snap1 editor0 = (Inr (), editor1)
   \<and> js_eq (Some (props_state props0)) (st_state editor1)
   \<and> tmp_document editor1 = Some doc1
   \<and> tmp_document (snd (componentWillReceiveProps core_plugin listed props0 editor1)) = Some doc0
   \<and> \<not> same doc0 doc1
   \<and> tmp_document (snd (componentWillReceiveProps core_plugin listed props0 editor1))
       \<noteq> tmp_document editor1"
proof -
  have "js_eq (Some (props_state props0)) (st_state editor1)"
    "tmp_document editor1 = Some doc1" "\<not> same doc0 doc1"
    by (simp_all add: same_def example_defs editor1_def)
  moreover have "tmp_document (snd (componentWillReceiveProps core_plugin listed props0 editor1))
                   = Some doc0"
    by (simp add: componentWillReceiveProps_def onBeforeChange_def cacheState_def Let_def
        same_def example_defs editor1_def)
  ultimately show ?thesis using constructor_props0 onChange_snap1 by (auto simp add: same_def)
qed

subsection \<open>The plugin list\<close>

lemma onBeforeChange_frame:
  "\<exists>tr. snd (onBeforeChange s ed) = ed\<lparr>trace := trace ed @ tr\<rparr>"
proof (cases "js_eq (Some s) (st_state ed)")
  case True
  then have "snd (onBeforeChange s ed) = ed\<lparr>trace := trace ed @ []\<rparr>"
    by (simp add: onBeforeChange_def)
  then show ?thesis by blast
next
  case False
  then show ?thesis
    by (simp add: onBeforeChange_def onBeforeChange_loop_chain) blast
qed

lemma componentWillReceiveProps_same_plugins:
  assumes "same (props_plugins p) (props_plugins (props ed))"
  shows "st_plugins (snd (componentWillReceiveProps CorePlugin create p ed)) = st_plugins ed"
proof -
  obtain tr where "snd (onBeforeChange (props_state p) ed) = ed\<lparr>trace := trace ed @ tr\<rparr>"
    using onBeforeChange_frame by blast
  with assms show ?thesis
    by (cases "onBeforeChange (props_state p) ed")
       (auto simp add: componentWillReceiveProps_def cacheState_def Let_def split: sum.splits)
qed

text \<open>
  C4. The resolved list is the plugin made of the properties, then the user's plugins
  in the order given, then the core plugin, which is last. The first plugin is built
  from the properties: it has their schema fragment, their \<open>onBeforeChange\<close> hook,
  their handler for each event name and each of their other fields, but neither their
  \<open>onChange\<close> (it has no \<open>onChange\<close> hook) nor their \<open>plugins\<close>, on which it does
  not depend. The constructor installs this list, and new properties whose \<open>plugins\<close>
  array is the one the editor has (whatever else changed, the schema fragment
  included) leave the editor's list as it was.
\<close>

theorem resolvePlugins_order:
  "resolvePlugins CorePlugin p = editorPlugin p # items (props_plugins p) @ [CorePlugin p]
   \<and> hd (resolvePlugins CorePlugin p) = editorPlugin p
   \<and> butlast (tl (resolvePlugins CorePlugin p)) = items (props_plugins p)
   \<and> last (resolvePlugins CorePlugin p) = CorePlugin p
   \<and> editorPlugin (p\<lparr>props_onChange := cb, props_plugins := l\<rparr>) = editorPlugin p
   \<and> (constructor CorePlugin create p = Inr ed \<longrightarrow> st_plugins ed = resolvePlugins CorePlugin p)
   \<and> (same (props_plugins p') (props_plugins (props ed)) \<longrightarrow>
        st_plugins (snd (componentWillReceiveProps CorePlugin create p' ed)) = st_plugins ed)
   \<and> hd (resolvePlugins CorePlugin p) =
        \<lparr>plugin_schema = props_schema p,
         plugin_onBeforeChange = props_onBeforeChange p,
         plugin_onChange = None,
         plugin_handler = props_handler p,
         plugin_className = props_className p,
         plugin_onDocumentChange = Some (props_onDocumentChange p),
         plugin_onSelectionChange = Some (props_onSelectionChange p),
         plugin_placeholder = props_placeholder p,
         plugin_placeholderClassName = props_placeholderClassName p,
         plugin_placeholderStyle = props_placeholderStyle p,
         plugin_readOnly = Some (props_readOnly p),
         plugin_spellCheck = Some (props_spellCheck p),
         plugin_state = Some (props_state p),
         plugin_style = props_style p\<rparr>
   \<and> (\<forall>name. plugin_handler (hd (resolvePlugins CorePlugin p)) name = props_handler p name)"
proof -
  have built: "constructor CorePlugin create p = Inr ed \<longrightarrow>
                 st_plugins ed = resolvePlugins CorePlugin p"
  proof
    assume c: "constructor CorePlugin create p = Inr ed"
    let ?init = "\<lparr>props = p, st_plugins = resolvePlugins CorePlugin p,
                   st_schema = resolveSchema create (resolvePlugins CorePlugin p),
                   st_state = None, tmp_document = None, tmp_selection = None, trace = []\<rparr>"
    obtain tr where "snd (onBeforeChange (props_state p) ?init) = ?init\<lparr>trace := trace ?init @ tr\<rparr>"
      using onBeforeChange_frame by blast
    with c show "st_plugins ed = resolvePlugins CorePlugin p"
      by (cases "onBeforeChange (props_state p) ?init")
         (auto simp add: constructor_def cacheState_def Let_def split: sum.splits)
  qed
  have order: "resolvePlugins CorePlugin p
                 = editorPlugin p # items (props_plugins p) @ [CorePlugin p]"
    by (simp add: resolvePlugins_def)
  have middle: "butlast (tl (resolvePlugins CorePlugin p)) = items (props_plugins p)"
    by (simp add: resolvePlugins_def butlast_append)
  have rest: "editorPlugin (p\<lparr>props_onChange := cb, props_plugins := l\<rparr>) = editorPlugin p"
    by (simp add: editorPlugin_def)
  have first: "hd (resolvePlugins CorePlugin p) =
        \<lparr>plugin_schema = props_schema p,
         plugin_onBeforeChange = props_onBeforeChange p,
         plugin_onChange = None,
         plugin_handler = props_handler p,
         plugin_className = props_className p,
         plugin_onDocumentChange = Some (props_onDocumentChange p),
         plugin_onSelectionChange = Some (props_onSelectionChange p),
         plugin_placeholder = props_placeholder p,
         plugin_placeholderClassName = props_placeholderClassName p,
         plugin_placeholderStyle = props_placeholderStyle p,
         plugin_readOnly = Some (props_readOnly p),
         plugin_spellCheck = Some (props_spellCheck p),
         plugin_state = Some (props_state p),
         plugin_style = props_style p\<rparr>"
    by (simp add: resolvePlugins_def editorPlugin_def)
  have handlers: "\<forall>name. plugin_handler (hd (resolvePlugins CorePlugin p)) name
                           = props_handler p name"
    by (simp add: first)
  have last: "last (resolvePlugins CorePlugin p) = CorePlugin p"
    by (simp add: order)
  have head: "hd (resolvePlugins CorePlugin p) = editorPlugin p"
    by (simp add: order)
  from order head middle last rest built
    componentWillReceiveProps_same_plugins [of p' ed CorePlugin create] first handlers
  show ?thesis by blast
qed

text \<open>
  On \<open>props_h\<close>: the first plugin of the resolved list answers key-down with
  \<open>snap2\<close>, as the properties' own handler does, its \<open>onBeforeChange\<close> hook is
  theirs, it has their class name and read-only flag and no \<open>onChange\<close> hook; the
  user's plugin and the core plugin follow. On \<open>editor0\<close>: new properties with the
  same plugin array and another schema fragment leave the list as it was.
\<close>

theorem resolvePlugins_order_witness:
  "constructor core_plugin listed props0 = Inr editor0
   \<and> same (props_plugins props_b) (props_plugins (props editor0))
   \<and> st_plugins editor0 = [editorPlugin props0, user_plugin, core_plugin props0]
   \<and> st_plugins (snd (componentWillReceiveProps core_plugin listed props_b editor0))
       = [editorPlugin props0, user_plugin, core_plugin props0]
   \<and> tl (resolvePlugins core_plugin props_h) = [user_plugin, core_plugin props_h]
   \<and> answers onKeyDown [] editor0 (hd (resolvePlugins core_plugin props_h)) = Returns snap2
   \<and> answers onPaste [] editor0 (hd (resolvePlugins core_plugin props_h)) = Nothing
   \<and> chain plugin_onBeforeChange [hd (resolvePlugins core_plugin props_h)] (handle editor0) snap0
       = Inr snap1
   \<and> chain plugin_onChange [hd (resolvePlugins core_plugin props_h)] (handle editor0) snap0
       = Inr snap0
   \<and> plugin_className (hd (resolvePlugins core_plugin props_h)) = Some ''editor''
   \<and> plugin_readOnly (hd (resolvePlugins core_plugin props_h)) = Some True
   \<and> expanded listed (hd (resolvePlugins core_plugin props_h)) = [''a'']"
proof -
  have unchanged: "same (props_plugins props_b) (props_plugins (props editor0))"
    by (simp add: same_def example_defs props_b_def)
  have listed: "resolvePlugins core_plugin props0
                  = [editorPlugin props0, user_plugin, core_plugin props0]"
    by (simp add: resolvePlugins_def props0_def)
  have kept: "st_plugins editor0 = [editorPlugin props0, user_plugin, core_plugin props0]
     \<and> st_plugins (snd (componentWillReceiveProps core_plugin listed props_b editor0))
         = [editorPlugin props0, user_plugin, core_plugin props0]"
    using resolvePlugins_order [of core_plugin props0 _ _ listed editor0 props_b]
      constructor_props0 unchanged listed
    by simp
  have fields: "props_schema props_h = Some \<lparr>ident = 40, body = [''a'']\<rparr>"
    "props_handler props_h onKeyDown = Some (\<lambda>as cur h. Returns snap2)"
    "props_handler props_h onPaste = None"
    "props_onBeforeChange props_h = Some (\<lambda>_ _. Returns snap1)"
    "props_className props_h = Some ''editor''" "props_readOnly props_h = True"
    "items (props_plugins props_h) = [user_plugin]"
    by (simp_all add: props_h_def props0_def on_key_down_def)
  have order: "resolvePlugins core_plugin props_h
                 = editorPlugin props_h # items (props_plugins props_h) @ [core_plugin props_h]"
    and first: "hd (resolvePlugins core_plugin props_h) =
        \<lparr>plugin_schema = props_schema props_h,
         plugin_onBeforeChange = props_onBeforeChange props_h,
         plugin_onChange = None,
         plugin_handler = props_handler props_h,
         plugin_className = props_className props_h,
         plugin_onDocumentChange = Some (props_onDocumentChange props_h),
         plugin_onSelectionChange = Some (props_onSelectionChange props_h),
         plugin_placeholder = props_placeholder props_h,
         plugin_placeholderClassName = props_placeholderClassName props_h,
         plugin_placeholderStyle = props_placeholderStyle props_h,
         plugin_readOnly = Some (props_readOnly props_h),
         plugin_spellCheck = Some (props_spellCheck props_h),
         plugin_state = Some (props_state props_h),
         plugin_style = props_style props_h\<rparr>"
    using resolvePlugins_order [of core_plugin props_h] by blast+
  have tail: "tl (resolvePlugins core_plugin props_h) = [user_plugin, core_plugin props_h]"
    by (simp add: order fields)
  have behaviour:
    "answers onKeyDown [] editor0 (hd (resolvePlugins core_plugin props_h)) = Returns snap2"
    "answers onPaste [] editor0 (hd (resolvePlugins core_plugin props_h)) = Nothing"
    "chain plugin_onBeforeChange [hd (resolvePlugins core_plugin props_h)] (handle editor0) snap0
       = Inr snap1"
    "chain plugin_onChange [hd (resolvePlugins core_plugin props_h)] (handle editor0) snap0
       = Inr snap0"
    "plugin_className (hd (resolvePlugins core_plugin props_h)) = Some ''editor''"
    "plugin_readOnly (hd (resolvePlugins core_plugin props_h)) = Some True"
    "expanded listed (hd (resolvePlugins core_plugin props_h)) = [''a'']"
    by (simp_all add: first fields answers_def expanded_def listed_def)
  from constructor_props0 unchanged kept tail behaviour show ?thesis by simp
qed

text \<open>
  C10. The plugin made of the properties carries each of their fields but \<open>onChange\<close>
  and \<open>plugins\<close>: the schema fragment, \<open>onBeforeChange\<close>, the event handlers, and the
  fields no plugin function reads (\<open>state\<close>, the two other callbacks, the display
  settings); it has no \<open>onChange\<close> hook. When the properties supply a schema fragment,
  the schema composed from the resolved list starts with the rules of that fragment,
  before those of the user's plugins and of the core plugin.
\<close>

theorem editorPlugin_schema_first:
  "plugin_schema (editorPlugin p) = props_schema p
   \<and> plugin_onBeforeChange (editorPlugin p) = props_onBeforeChange p
   \<and> plugin_handler (editorPlugin p) = props_handler p
   \<and> plugin_className (editorPlugin p) = props_className p
   \<and> plugin_onDocumentChange (editorPlugin p) = Some (props_onDocumentChange p)
   \<and> plugin_onSelectionChange (editorPlugin p) = Some (props_onSelectionChange p)
   \<and> plugin_placeholder (editorPlugin p) = props_placeholder p
   \<and> plugin_placeholderClassName (editorPlugin p) = props_placeholderClassName p
   \<and> plugin_placeholderStyle (editorPlugin p) = props_placeholderStyle p
   \<and> plugin_readOnly (editorPlugin p) = Some (props_readOnly p)
   \<and> plugin_spellCheck (editorPlugin p) = Some (props_spellCheck p)
   \<and> plugin_state (editorPlugin p) = Some (props_state p)
   \<and> plugin_style (editorPlugin p) = props_style p
   \<and> plugin_onChange (editorPlugin p) = None
   \<and> (props_schema p = Some frag \<longrightarrow>
        rules (resolveSchema create (resolvePlugins CorePlugin p))
          = rules (create frag)
            @ concat (map (expanded create) (items (props_plugins p)))
            @ expanded create (CorePlugin p))"
  by (simp add: editorPlugin_def rules_resolveSchema resolvePlugins_def expanded_def)

theorem editorPlugin_schema_first_witness:
  "props_schema props0 = Some \<lparr>ident = 40, body = [''a'']\<rparr>
   \<and> rules (resolveSchema listed (resolvePlugins core_plugin props0)) = [''a'', ''r1'', ''r2'']"
proof -
  have supplied: "props_schema props0 = Some \<lparr>ident = 40, body = [''a'']\<rparr>"
    by (simp add: props0_def)
  have parts: "rules (listed \<lparr>ident = 40, body = [''a'']\<rparr>) = [''a'']"
    "concat (map (expanded listed) (items (props_plugins props0))) = [''r1'']"
    "expanded listed (core_plugin props0) = [''r2'']"
    by (simp_all add: expanded_def example_defs)
  from editorPlugin_schema_first [of props0 "\<lparr>ident = 40, body = [''a'']\<rparr>" listed core_plugin]
    supplied
  show ?thesis by (simp add: parts)
qed

subsection \<open>A new schema fragment with the same plugin list\<close>

text \<open>
  The branch of lines 120-123 composes the schema from \<open>this.state.plugins\<close>, whose
  first plugin was made of the properties of the time: with the same plugin list the
  composed schema is the one the editor had.
\<close>

lemma schema_update_is_stale:
  assumes "same (props_plugins p) (props_plugins (props ed))"
    and "st_schema ed = resolveSchema create (st_plugins ed)"
  shows "st_schema (snd (componentWillReceiveProps CorePlugin create p ed)) = st_schema ed"
proof -
  obtain tr where "snd (onBeforeChange (props_state p) ed) = ed\<lparr>trace := trace ed @ tr\<rparr>"
    using onBeforeChange_frame by blast
  with assms show ?thesis
    by (cases "onBeforeChange (props_state p) ed")
       (auto simp add: componentWillReceiveProps_def cacheState_def Let_def split: sum.splits)
qed

text \<open>
  C6 fails on the code. \<open>editor0\<close> was built from \<open>props0\<close>, whose schema fragment
  expands to \<open>[a]\<close>. It receives \<open>props_b\<close>: the same plugin array, another fragment,
  which expands to \<open>[b]\<close>. The schema it ends with has the rules \<open>[a, r1, r2]\<close>; built
  from \<open>props_b\<close> it would have \<open>[b, r1, r2]\<close>.
\<close>

theorem schema_override_update_is_stale:
  "constructor core_plugin listed props0 = Inr editor0
   \<and> same (props_plugins props_b) (props_plugins (props editor0))
   \<and> \<not> js_eq (props_schema props_b) (props_schema (props editor0))
   \<and> expanded listed (editorPlugin props_b) = [''b'']
   \<and> fst (componentWillReceiveProps core_plugin listed props_b editor0) = Inr ()
   \<and> rules (st_schema (snd (componentWillReceiveProps core_plugin listed props_b editor0)))
       = [''a'', ''r1'', ''r2'']
   \<and> rules (resolveSchema listed (resolvePlugins core_plugin props_b)) = [''b'', ''r1'', ''r2'']"
proof -
  have "same (props_plugins props_b) (props_plugins (props editor0))"
    "\<not> js_eq (props_schema props_b) (props_schema (props editor0))"
    "expanded listed (editorPlugin props_b) = [''b'']"
    by (simp_all add: same_def expanded_def editorPlugin_def example_defs props_b_def)
  moreover have "fst (componentWillReceiveProps core_plugin listed props_b editor0) = Inr ()"
    "rules (st_schema (snd (componentWillReceiveProps core_plugin listed props_b editor0)))
       = [''a'', ''r1'', ''r2'']"
    by (simp_all add: componentWillReceiveProps_def onBeforeChange_def cacheState_def Let_def
        resolveSchema_def Schema_create_rules_def same_def editorPlugin_def example_defs
        props_b_def)
  moreover have "rules (resolveSchema listed (resolvePlugins core_plugin props_b))
                   = [''b'', ''r1'', ''r2'']"
    by (simp add: resolvePlugins_def resolveSchema_def Schema_create_rules_def editorPlugin_def
        example_defs props_b_def)
  ultimately show ?thesis using constructor_props0 by simp
qed

subsection \<open>Dispatching an event\<close>

lemma answers_trace: "answers n a (ed\<lparr>trace := t\<rparr>) p = answers n a ed p"
  by (simp add: answers_def handle_trace split: option.splits)

lemma dispatch_trace: "dispatch n a (ed\<lparr>trace := t\<rparr>) ps = dispatch n a ed ps"
  by (induction ps) (simp_all add: answers_trace split: result.splits)

lemma handler_calls_trace:
  "handler_calls i ps n a (ed\<lparr>trace := t\<rparr>) = handler_calls i ps n a ed"
  by (induction ps arbitrary: i) (simp_all add: handle_trace split: option.splits result.splits)

lemma onEvent_loop_dispatch:
  "onEvent_loop i ps n a ed =
     finish (dispatch n a ed ps) (ed\<lparr>trace := trace ed @ handler_calls i ps n a ed\<rparr>)"
proof (induction ps arbitrary: i ed)
  case Nil
  then show ?case by simp
next
  case (Cons p ps)
  show ?case
  proof (cases "plugin_handler p n")
    case None
    then show ?thesis by (simp add: Cons.IH answers_def)
  next
    case (Some h)
    let ?r = "h a (st_state ed) (handle ed)"
    let ?c = "Handler n i a (st_state ed) ?r"
    have ed': "called ?c ed = ed\<lparr>trace := trace ed @ [?c]\<rparr>"
      by (simp add: called_def)
    show ?thesis
    proof (cases ?r)
      case Nothing
      have "onEvent_loop i (p # ps) n a ed = onEvent_loop (Suc i) ps n a (called ?c ed)"
        using Some Nothing by (simp add: Let_def)
      also have "\<dots> = finish (dispatch n a ed ps)
                          (ed\<lparr>trace := trace ed @ ?c # handler_calls (Suc i) ps n a ed\<rparr>)"
        by (simp add: Cons.IH ed' dispatch_trace handler_calls_trace)
      finally show ?thesis
        using Some Nothing by (simp add: answers_def)
    next
      case (Returns s)
      with Some show ?thesis by (simp add: answers_def Let_def called_def)
    next
      case (Throws e)
      with Some show ?thesis by (simp add: answers_def Let_def called_def)
    qed
  qed
qed

lemma dispatch_find:
  "\<forall>p\<in>set (takeWhile (\<lambda>p. \<not> returns_snapshot (answers n a ed p)) L). answers n a ed p = Nothing
   \<Longrightarrow> dispatch n a ed L =
        (case find (\<lambda>p. returns_snapshot (answers n a ed p)) L of
           None \<Rightarrow> Nothing
         | Some p \<Rightarrow> answers n a ed p)"
proof (induction L)
  case Nil
  show ?case by simp
next
  case (Cons p L)
  show ?case
  proof (cases "answers n a ed p")
    case Nothing
    then have tw: "takeWhile (\<lambda>p. \<not> returns_snapshot (answers n a ed p)) (p # L)
                 = p # takeWhile (\<lambda>p. \<not> returns_snapshot (answers n a ed p)) L"
      by simp
    have "\<forall>q\<in>set (takeWhile (\<lambda>p. \<not> returns_snapshot (answers n a ed p)) L).
            answers n a ed q = Nothing"
      using Cons.prems unfolding tw by simp
    then have "dispatch n a ed L =
        (case find (\<lambda>p. returns_snapshot (answers n a ed p)) L of
           None \<Rightarrow> Nothing
         | Some p \<Rightarrow> answers n a ed p)"
      by (rule Cons.IH)
    with Nothing show ?thesis by simp
  next
    case (Returns s)
    then show ?thesis by simp
  next
    case (Throws e)
    then have tw: "takeWhile (\<lambda>p. \<not> returns_snapshot (answers n a ed p)) (p # L)
                 = p # takeWhile (\<lambda>p. \<not> returns_snapshot (answers n a ed p)) L"
      by simp
    have "answers n a ed p = Nothing"
      using Cons.prems unfolding tw by simp
    with Throws show ?thesis by simp
  qed
qed

lemma handler_calls_are_handler_calls: "list_all is_handler_call (handler_calls i ps n a ed)"
  by (induction ps arbitrary: i) (simp_all split: option.splits result.splits)

text \<open>
  C1. Take any event name, arguments and editor, the handlers being total: every
  plugin before the first one whose handler returns a snapshot either has no handler
  of that name or its handler returns no result. If some plugin's handler returns a
  snapshot, \<open>onEvent\<close> hands the snapshot of the first such plugin to \<open>onChange\<close>. If
  none does (no plugin has the handler, or every handler returns no result),
  \<open>onEvent\<close> ends with the component as it was: the snapshot held, the cache, the
  plugins and the schema are unchanged, and the only calls made are handler calls, so
  no \<open>onChange\<close> hook ran and no callback was invoked.
\<close>

theorem onEvent_first_snapshot:
  assumes "\<forall>p\<in>set (takeWhile (\<lambda>p. \<not> returns_snapshot (answers n a ed p)) (st_plugins ed)).
             answers n a ed p = Nothing"
  shows "\<exists>tr. list_all is_handler_call tr \<and>
     (case find (\<lambda>p. returns_snapshot (answers n a ed p)) (st_plugins ed) of
        None \<Rightarrow> onEvent n a ed = (Inr (), ed\<lparr>trace := trace ed @ tr\<rparr>)
      | Some p \<Rightarrow>
          (\<exists>s. answers n a ed p = Returns s
             \<and> onEvent n a ed = onChange s (ed\<lparr>trace := trace ed @ tr\<rparr>)))"
proof -
  let ?tr = "handler_calls 0 (st_plugins ed) n a ed"
  let ?found = "find (\<lambda>p. returns_snapshot (answers n a ed p)) (st_plugins ed)"
  have d: "dispatch n a ed (st_plugins ed) =
             (case ?found of None \<Rightarrow> Nothing | Some p \<Rightarrow> answers n a ed p)"
    using assms by (rule dispatch_find)
  have run: "onEvent n a ed = finish (dispatch n a ed (st_plugins ed))
                                (ed\<lparr>trace := trace ed @ ?tr\<rparr>)"
    by (simp only: onEvent_def onEvent_loop_dispatch)
  have "case ?found of
          None \<Rightarrow> onEvent n a ed = (Inr (), ed\<lparr>trace := trace ed @ ?tr\<rparr>)
        | Some p \<Rightarrow>
            (\<exists>s. answers n a ed p = Returns s
               \<and> onEvent n a ed = onChange s (ed\<lparr>trace := trace ed @ ?tr\<rparr>))"
  proof (cases ?found)
    case None
    with d have "dispatch n a ed (st_plugins ed) = Nothing" by simp
    with run None show ?thesis by simp
  next
    case (Some p)
    then have "returns_snapshot (answers n a ed p)" by (simp add: find_Some_iff) blast
    then obtain s where s: "answers n a ed p = Returns s"
      by (cases "answers n a ed p") simp_all
    with d Some have "dispatch n a ed (st_plugins ed) = Returns s" by simp
    with run Some s show ?thesis by simp
  qed
  with handler_calls_are_handler_calls [of 0 "st_plugins ed" n a ed] show ?thesis by blast
qed

text \<open>
  On \<open>editor0\<close>: the plugin made of the properties has no key-down handler, the
  user's plugin returns \<open>snap1\<close>, the core plugin would return \<open>snap2\<close>; \<open>snap1\<close> is
  committed. No plugin has a paste handler.
\<close>

theorem onEvent_first_snapshot_witness:
  "takeWhile (\<lambda>p. \<not> returns_snapshot (answers onKeyDown [] editor0 p)) (st_plugins editor0)
     = [editorPlugin props0]
   \<and> answers onKeyDown [] editor0 (editorPlugin props0) = Nothing
   \<and> find (\<lambda>p. returns_snapshot (answers onKeyDown [] editor0 p)) (st_plugins editor0)
       = Some user_plugin
   \<and> (\<exists>tr. list_all is_handler_call tr
         \<and> onEvent onKeyDown [] editor0 = onChange snap1 (editor0\<lparr>trace := trace editor0 @ tr\<rparr>))
   \<and> takeWhile (\<lambda>p. \<not> returns_snapshot (answers onPaste [] editor0 p)) (st_plugins editor0)
       = [editorPlugin props0, user_plugin, core_plugin props0]
   \<and> find (\<lambda>p. returns_snapshot (answers onPaste [] editor0 p)) (st_plugins editor0) = None
   \<and> (\<exists>tr. list_all is_handler_call tr
         \<and> onEvent onPaste [] editor0 = (Inr (), editor0\<lparr>trace := trace editor0 @ tr\<rparr>))"
proof -
  have plugins: "st_plugins editor0 = [editorPlugin props0, user_plugin, core_plugin props0]"
    by (simp add: editor0_def)
  have key: "answers onKeyDown [] editor0 (editorPlugin props0) = Nothing"
    "answers onKeyDown [] editor0 user_plugin = Returns snap1"
    by (simp_all add: answers_def editorPlugin_def props0_def user_plugin_def bare_def
        on_key_down_def)
  have paste: "answers onPaste [] editor0 (editorPlugin props0) = Nothing"
    "answers onPaste [] editor0 user_plugin = Nothing"
    "answers onPaste [] editor0 (core_plugin props0) = Nothing"
    by (simp_all add: answers_def editorPlugin_def props0_def user_plugin_def core_plugin_def
        bare_def on_key_down_def)
  have tw_key: "takeWhile (\<lambda>p. \<not> returns_snapshot (answers onKeyDown [] editor0 p))
                  (st_plugins editor0) = [editorPlugin props0]"
    by (simp add: plugins key)
  have found_key: "find (\<lambda>p. returns_snapshot (answers onKeyDown [] editor0 p))
                     (st_plugins editor0) = Some user_plugin"
    by (simp add: plugins key)
  have tw_paste: "takeWhile (\<lambda>p. \<not> returns_snapshot (answers onPaste [] editor0 p))
                    (st_plugins editor0) = [editorPlugin props0, user_plugin, core_plugin props0]"
    by (simp add: plugins paste)
  have found_paste: "find (\<lambda>p. returns_snapshot (answers onPaste [] editor0 p))
                       (st_plugins editor0) = None"
    by (simp add: plugins paste)
  have hyp_key: "\<forall>p\<in>set (takeWhile (\<lambda>p. \<not> returns_snapshot (answers onKeyDown [] editor0 p))
                    (st_plugins editor0)). answers onKeyDown [] editor0 p = Nothing"
    unfolding tw_key by (simp add: key)
  have hyp_paste: "\<forall>p\<in>set (takeWhile (\<lambda>p. \<not> returns_snapshot (answers onPaste [] editor0 p))
                    (st_plugins editor0)). answers onPaste [] editor0 p = Nothing"
    unfolding tw_paste by (simp add: paste)
  have "\<exists>tr. list_all is_handler_call tr
         \<and> onEvent onKeyDown [] editor0 = onChange snap1 (editor0\<lparr>trace := trace editor0 @ tr\<rparr>)"
    using onEvent_first_snapshot [OF hyp_key] unfolding found_key by (simp add: key)
  moreover have "\<exists>tr. list_all is_handler_call tr
         \<and> onEvent onPaste [] editor0 = (Inr (), editor0\<lparr>trace := trace editor0 @ tr\<rparr>)"
    using onEvent_first_snapshot [OF hyp_paste] unfolding found_paste by simp
  ultimately show ?thesis
    using tw_key key(1) found_key tw_paste found_paste by blast
qed

subsection \<open>The handlers one dispatch runs\<close>

lemma handler_calls_from: "\<forall>c\<in>set (handler_calls i ps n a ed). i \<le> call_index c"
proof (induction ps arbitrary: i)
  case Nil
  show ?case by simp
next
  case (Cons p ps)
  have "\<forall>c\<in>set (handler_calls (Suc i) ps n a ed). i \<le> call_index c"
    using Cons.IH [of "Suc i"] by auto
  then show ?case by (simp split: option.splits result.splits)
qed

lemma handler_calls_sorted: "sorted_wrt (<) (map call_index (handler_calls i ps n a ed))"
proof (induction ps arbitrary: i)
  case Nil
  show ?case by simp
next
  case (Cons p ps)
  have "\<forall>c\<in>set (handler_calls (Suc i) ps n a ed). i < call_index c"
    using handler_calls_from [of "Suc i" ps n a ed] by auto
  with Cons.IH [of "Suc i"] show ?case by (simp split: option.splits result.splits)
qed

lemma handler_calls_butlast:
  "list_all (\<lambda>c. call_result c = Nothing) (butlast (handler_calls i ps n a ed))"
  by (induction ps arbitrary: i) (simp_all split: option.splits result.splits)

lemma handler_calls_one_snapshot:
  "length (filter (\<lambda>c. returns_snapshot (call_result c)) (handler_calls i ps n a ed)) \<le> 1"
  by (induction ps arbitrary: i) (simp_all split: option.splits result.splits)

lemma no_handler_in_hooks: "list_all is_hook_call tr \<Longrightarrow> filter is_handler_call tr = []"
  by (induction tr) (auto elim: is_hook_call.elims)

lemma notify_calls:
  "\<exists>tr. trace (notify s ed) = trace ed @ tr \<and> filter is_handler_call tr = []"
  by (simp add: notify_def called_def cacheState_def Let_def)

lemma onChange_calls:
  "\<exists>tr. trace (snd (onChange s ed)) = trace ed @ tr \<and> filter is_handler_call tr = []"
proof (cases "js_eq (Some s) (st_state ed)")
  case True
  then show ?thesis by (simp add: onChange_def)
next
  case False
  let ?hooks = "chain_calls Hook_onChange plugin_onChange 0 (st_plugins ed) (handle ed) s"
  let ?ed' = "ed\<lparr>trace := trace ed @ ?hooks\<rparr>"
  have hooks: "filter is_handler_call ?hooks = []"
    by (rule no_handler_in_hooks) (rule chain_calls_hooks)
  show ?thesis
  proof (cases "chain plugin_onChange (st_plugins ed) (handle ed) s")
    case (Inl e)
    with False have "trace (snd (onChange s ed)) = trace ed @ ?hooks"
      by (simp add: onChange_def onChange_loop_chain)
    with hooks show ?thesis by blast
  next
    case (Inr s')
    with False have run: "snd (onChange s ed) = notify s' ?ed'"
      by (simp add: onChange_def onChange_loop_chain)
    obtain tr where "trace (notify s' ?ed') = trace ?ed' @ tr" "filter is_handler_call tr = []"
      using notify_calls by blast
    with run hooks have "trace (snd (onChange s ed)) = trace ed @ (?hooks @ tr)
                          \<and> filter is_handler_call (?hooks @ tr) = []"
      by simp
    then show ?thesis by blast
  qed
qed

lemma finish_calls:
  "\<exists>tr. trace (snd (finish r ed)) = trace ed @ tr \<and> filter is_handler_call tr = []"
  by (cases r) (simp_all add: onChange_calls)

lemma filter_handler_calls:
  "filter is_handler_call (handler_calls i ps n a ed) = handler_calls i ps n a ed"
  using handler_calls_are_handler_calls [of i ps n a ed]
  by (simp add: list_all_iff)

lemma handlers_run_onEvent:
  "handlers_run ed (snd (onEvent n a ed)) = handler_calls 0 (st_plugins ed) n a ed
   \<and> (\<exists>rest. new_calls ed (snd (onEvent n a ed))
                = handlers_run ed (snd (onEvent n a ed)) @ rest)"
proof -
  let ?hc = "handler_calls 0 (st_plugins ed) n a ed"
  let ?ed' = "ed\<lparr>trace := trace ed @ ?hc\<rparr>"
  obtain tr where tr: "trace (snd (finish (dispatch n a ed (st_plugins ed)) ?ed')) = trace ?ed' @ tr"
    "filter is_handler_call tr = []"
    using finish_calls by blast
  have "new_calls ed (snd (onEvent n a ed)) = ?hc @ tr"
    by (simp add: new_calls_def onEvent_def onEvent_loop_dispatch tr(1))
  with tr(2) show ?thesis by (simp add: handlers_run_def filter_handler_calls)
qed

text \<open>
  C9, in the form that holds. In one dispatch the handlers run one after the other in the order
  of the plugin list, each plugin's at most once (the positions of the plugins called
  increase strictly); every handler called before the last one returned no result,
  so at most one handler returns a snapshot; and all the handler calls come before
  anything else the dispatch does: no handler runs once the commit has begun.
\<close>

theorem onEvent_handlers_in_order:
  "sorted_wrt (<) (map call_index (handlers_run ed (snd (onEvent n a ed))))
   \<and> list_all (\<lambda>c. call_result c = Nothing) (butlast (handlers_run ed (snd (onEvent n a ed))))
   \<and> length (filter (\<lambda>c. returns_snapshot (call_result c))
               (handlers_run ed (snd (onEvent n a ed)))) \<le> 1
   \<and> (\<exists>rest. new_calls ed (snd (onEvent n a ed))
                = handlers_run ed (snd (onEvent n a ed)) @ rest)"
proof -
  let ?hs = "handlers_run ed (snd (onEvent n a ed))"
  have hs: "?hs = handler_calls 0 (st_plugins ed) n a ed"
    and first: "\<exists>rest. new_calls ed (snd (onEvent n a ed)) = ?hs @ rest"
    using handlers_run_onEvent [of ed n a] by blast+
  have "sorted_wrt (<) (map call_index ?hs)"
    unfolding hs by (rule handler_calls_sorted)
  moreover have "list_all (\<lambda>c. call_result c = Nothing) (butlast ?hs)"
    unfolding hs by (rule handler_calls_butlast)
  moreover have "length (filter (\<lambda>c. returns_snapshot (call_result c)) ?hs) \<le> 1"
    unfolding hs by (rule handler_calls_one_snapshot)
  ultimately show ?thesis using first by blast
qed

text \<open>
  C9 as stated fails: two handlers run in one dispatch when the first returns no
  result. The component built from \<open>props_with [silent_plugin]\<close> calls the key-down
  handler of \<open>silent_plugin\<close>, then that of the core plugin.
\<close>

theorem onEvent_single_handler_counterexample:
  "constructor core_plugin listed (props_with [silent_plugin]) = Inr (editor_with [silent_plugin])
   \<and> handlers_run (editor_with [silent_plugin])
        (snd (onEvent onKeyDown [] (editor_with [silent_plugin])))
       = [Handler onKeyDown 1 [] (Some snap0) Nothing,
          Handler onKeyDown 2 [] (Some snap0) (Returns snap2)]
   \<and> \<not> length (handlers_run (editor_with [silent_plugin])
                   (snd (onEvent onKeyDown [] (editor_with [silent_plugin])))) \<le> 1"
proof -
  have "constructor core_plugin listed (props_with [silent_plugin])
          = Inr (editor_with [silent_plugin])"
    by (simp add: constructor_def resolvePlugins_def resolveSchema_def Schema_create_rules_def
      onBeforeChange_def cacheState_def editorPlugin_def example_defs more_example_defs
      expanded_def)
  moreover have "handlers_run (editor_with [silent_plugin])
        (snd (onEvent onKeyDown [] (editor_with [silent_plugin])))
       = [Handler onKeyDown 1 [] (Some snap0) Nothing,
          Handler onKeyDown 2 [] (Some snap0) (Returns snap2)]"
    by (simp add: handlers_run_def new_calls_def onEvent_def onChange_def notify_def called_def
        cacheState_def handle_def same_def Let_def editorPlugin_def example_defs
        more_example_defs)
  ultimately show ?thesis by simp
qed

text \<open>
  On the same component: the two handler calls are those of the plugins at positions
  1 and 2, in this order, the first returned no result, and the calls of the commit
  follow them.
\<close>

theorem onEvent_handlers_in_order_witness:
  "sorted_wrt (<) (map call_index (handlers_run (editor_with [silent_plugin])
                     (snd (onEvent onKeyDown [] (editor_with [silent_plugin])))))
   \<and> list_all (\<lambda>c. call_result c = Nothing)
        (butlast (handlers_run (editor_with [silent_plugin])
                    (snd (onEvent onKeyDown [] (editor_with [silent_plugin])))))
   \<and> length (filter (\<lambda>c. returns_snapshot (call_result c))
               (handlers_run (editor_with [silent_plugin])
                  (snd (onEvent onKeyDown [] (editor_with [silent_plugin]))))) \<le> 1
   \<and> (\<exists>rest. new_calls (editor_with [silent_plugin])
                 (snd (onEvent onKeyDown [] (editor_with [silent_plugin])))
                = handlers_run (editor_with [silent_plugin])
                    (snd (onEvent onKeyDown [] (editor_with [silent_plugin]))) @ rest)
   \<and> map call_index (handlers_run (editor_with [silent_plugin])
                        (snd (onEvent onKeyDown [] (editor_with [silent_plugin])))) = [1, 2]"
proof -
  have "handlers_run (editor_with [silent_plugin])
        (snd (onEvent onKeyDown [] (editor_with [silent_plugin])))
       = [Handler onKeyDown 1 [] (Some snap0) Nothing,
          Handler onKeyDown 2 [] (Some snap0) (Returns snap2)]"
    by (simp add: handlers_run_def new_calls_def onEvent_def onChange_def notify_def called_def
        cacheState_def handle_def same_def Let_def editorPlugin_def example_defs
        more_example_defs)
  then have "map call_index (handlers_run (editor_with [silent_plugin])
                        (snd (onEvent onKeyDown [] (editor_with [silent_plugin])))) = [1, 2]"
    by simp
  with onEvent_handlers_in_order [of "editor_with [silent_plugin]" onKeyDown "[]"]
  show ?thesis by blast
qed

end
